theory Spec2Isabelle
  imports Complex_Main "HOL-Library.Product_Lexorder"
begin

section \<open>The embedding index classes of \<^verbatim>\<open>Cohere_Embedding.py\<close> and \<^verbatim>\<open>openai_embedding.py\<close>\<close>

text \<open>
  Both classes keep, for every index name, three files: the FAISS index
  (\<^verbatim>\<open>{dir}/{name}.faiss\<close>), the chunk metadata (\<^verbatim>\<open>{dir}/chunks/{name}.json\<close>) and
  the raw embedding array (\<^verbatim>\<open>{dir}/embeddings/{name}.npy\<close>). The three paths of a
  name differ in their extension, so the directory is modelled as three maps from
  the index name to the file's content. Names are plain file names.

  Vector components are rationals: every float32 is one, and the rounding of
  float32 arithmetic is outside the model.
\<close>

subsection \<open>Python exceptions\<close>

datatype exn =
    FileNotFoundError
  | RuntimeError
  | ValueError
  | IndexError
  | AssertionError
  | ZeroDivisionError
  | Exception

subsection \<open>numpy arrays\<close>

type_synonym vec = "rat list"

text \<open>
  \<open>Arr1 v\<close> is an array of shape \<open>(length v,)\<close>; \<open>Arr2 d rows\<close> is an array of
  shape \<open>(length rows, d)\<close>.
\<close>

datatype ndarray = Arr1 vec | Arr2 nat "vec list"

text \<open>
  \<^verbatim>\<open>np.array(lists, dtype=np.float32)\<close> on a list of lists of numbers: the empty
  list gives shape \<open>(0,)\<close>, a rectangular list a two-dimensional array, and a
  ragged one raises ValueError.
\<close>

fun np_array :: "vec list \<Rightarrow> exn + ndarray" where
  "np_array [] = Inr (Arr1 [])"
| "np_array (v # vs) =
     (if list_all (\<lambda>w. length w = length v) vs then Inr (Arr2 (length v) (v # vs))
      else Inl ValueError)"

text \<open>\<^verbatim>\<open>np.atleast_2d\<close>: a one-dimensional array becomes a single row.\<close>

fun atleast_2d :: "ndarray \<Rightarrow> nat \<times> vec list" where
  "atleast_2d (Arr1 v) = (length v, [v])"
| "atleast_2d (Arr2 d rows) = (d, rows)"

text \<open>
  \<^verbatim>\<open>np.vstack([a, b])\<close>: both arrays are made two-dimensional and concatenated
  along axis 0; differing column counts raise ValueError.
\<close>

definition np_vstack :: "ndarray \<Rightarrow> ndarray \<Rightarrow> exn + ndarray" where
  "np_vstack a b =
     (case atleast_2d a of (da, ra) \<Rightarrow>
      case atleast_2d b of (db, rb) \<Rightarrow>
        if da = db then Inr (Arr2 da (ra @ rb)) else Inl ValueError)"

text \<open>
  \<^verbatim>\<open>a.reshape(1, -1)\<close> of a one-dimensional array; numpy cannot infer the
  \<open>-1\<close> for an array of size 0 and raises ValueError.
\<close>

fun reshape_1 :: "ndarray \<Rightarrow> exn + ndarray" where
  "reshape_1 (Arr1 v) = (if v = [] then Inl ValueError else Inr (Arr2 (length v) [v]))"
| "reshape_1 (Arr2 d rows) =
     (if d * length rows = 0 then Inl ValueError else Inr (Arr2 (d * length rows) [concat rows]))"

text \<open>
  \<^verbatim>\<open>xs[i]\<close> on a Python list: an index from \<open>-len(xs)\<close> to \<open>-1\<close> is taken
  from the end, and one outside \<open>-len(xs) .. len(xs) - 1\<close> raises IndexError.
\<close>

definition py_get :: "'a list \<Rightarrow> int \<Rightarrow> exn + 'a" where
  "py_get xs i =
     (if 0 \<le> i \<and> i < int (length xs) then Inr (xs ! nat i)
      else if i < 0 \<and> - int (length xs) \<le> i then Inr (xs ! nat (int (length xs) + i))
      else Inl IndexError)"

subsection \<open>The FAISS flat L2 index\<close>

text \<open>
  \<^verbatim>\<open>faiss.IndexFlatL2(d)\<close> stores its vectors in insertion order. Through the
  Python wrapper, \<^verbatim>\<open>add\<close> unpacks \<^verbatim>\<open>n, d = x.shape\<close> (ValueError on a
  one-dimensional array) and asserts \<^verbatim>\<open>d == self.d\<close>.
\<close>

text \<open>\<open>IndexFlatL2 d xb\<close>: the dimension and the stored vectors.\<close>

datatype faiss_index = IndexFlatL2 nat "vec list"

fun index_add :: "faiss_index \<Rightarrow> ndarray \<Rightarrow> exn + faiss_index" where
  "index_add (IndexFlatL2 d xb) (Arr1 v) = Inl ValueError"
| "index_add (IndexFlatL2 d xb) (Arr2 c rows) =
     (if c = d then Inr (IndexFlatL2 d (xb @ rows)) else Inl AssertionError)"

definition L2sqr :: "vec \<Rightarrow> vec \<Rightarrow> rat" where
  "L2sqr x y = sum_list (map (\<lambda>(a, b). (a - b) * (a - b)) (zip x y))"

text \<open>The largest finite float32, FAISS's filler distance for a missing neighbour.\<close>

definition FLT_MAX :: rat where
  "FLT_MAX = 340282346638528859811704183484516925440"

text \<open>
  The exhaustive scan of one query: every stored vector with its squared
  distance and its position, the \<open>k\<close> smallest by (distance, position) in
  ascending order. When fewer than \<open>k\<close> vectors are stored, FAISS fills the rest of
  the row with label \<open>-1\<close> and distance \<open>FLT_MAX\<close>.
\<close>

definition scan :: "vec list \<Rightarrow> vec \<Rightarrow> (rat \<times> int) list" where
  "scan xb q = zip (map (L2sqr q) xb) (map int [0 ..< length xb])"

definition knn :: "vec list \<Rightarrow> nat \<Rightarrow> vec \<Rightarrow> (rat \<times> int) list" where
  "knn xb k q =
     (let found = take k (sort (scan xb q))
      in found @ replicate (k - length found) (FLT_MAX, - 1))"

text \<open>
  \<^verbatim>\<open>index.search(x, k)\<close>: the wrapper unpacks \<^verbatim>\<open>n, d = x.shape\<close>, asserts
  \<^verbatim>\<open>d == self.d\<close> and \<^verbatim>\<open>k > 0\<close>, and returns the distance and label arrays of
  shape \<open>(n, k)\<close>.
\<close>

fun index_search :: "faiss_index \<Rightarrow> ndarray \<Rightarrow> nat \<Rightarrow> exn + (rat list list \<times> int list list)" where
  "index_search (IndexFlatL2 d xb) (Arr1 v) k = Inl ValueError"
| "index_search (IndexFlatL2 d xb) (Arr2 c qs) k =
     (if c \<noteq> d then Inl AssertionError
      else if k = 0 then Inl AssertionError
      else Inr (map (\<lambda>q. map fst (knn xb k q)) qs, map (\<lambda>q. map snd (knn xb k q)) qs))"

subsection \<open>Chunk metadata and the index directory\<close>

record chunk =
  id_c :: nat
  text_c :: string
  embedding_index :: nat

text \<open>A key that only one of the classes writes is an optional field.\<close>

record metadata =
  created_at :: string
  model :: string
  input_type :: "string option"
  encoding_format :: "string option"
  total_chunks :: nat
  embedding_dim :: "nat option"
  chunks :: "chunk list"
  updated_at :: "string option"

record fs =
  faiss_files :: "string \<rightharpoonup> faiss_index"
  json_files :: "string \<rightharpoonup> metadata"
  npy_files :: "string \<rightharpoonup> ndarray"

definition empty_fs :: fs where
  "empty_fs = \<lparr>faiss_files = Map.empty, json_files = Map.empty, npy_files = Map.empty\<rparr>"

subsection \<open>The two classes and the remote embedding API\<close>

text \<open>
  \<open>Cohere_Embedding model input_type embedding_dim\<close> and
  \<open>OpenAI_Embedding model encoding_format\<close>. The remote API is a parameter: for the
  texts of a request it gives the status code and the embeddings of the response.
\<close>

datatype client =
    Cohere_Embedding string string nat
  | OpenAI_Embedding string string

type_synonym api = "string list \<Rightarrow> nat \<times> vec list"

datatype py_arg = Str string | Lst "string list"

fun get_embedding :: "client \<Rightarrow> api \<Rightarrow> py_arg \<Rightarrow> exn + ndarray" where
  "get_embedding (Cohere_Embedding m it edim) post (Str t) =
     (case post [t] of (status, body) \<Rightarrow>
        if status \<noteq> 200 then Inl Exception
        else (case np_array body of
                Inl e \<Rightarrow> Inl e
              | Inr (Arr1 v) \<Rightarrow> Inl IndexError
              | Inr (Arr2 d rows) \<Rightarrow> Inr (Arr1 (hd rows))))"
| "get_embedding (Cohere_Embedding m it edim) post (Lst ts) =
     (case post ts of (status, body) \<Rightarrow>
        if status \<noteq> 200 then Inl Exception else np_array body)"
| "get_embedding (OpenAI_Embedding m ef) post (Str t) =
     (case post [t] of (status, body) \<Rightarrow>
        if status \<noteq> 200 then Inl Exception
        else (case body of [] \<Rightarrow> Inl IndexError | v # vs \<Rightarrow> Inr (Arr1 v)))"
| "get_embedding (OpenAI_Embedding m ef) post (Lst ts) =
     (case post ts of (status, body) \<Rightarrow>
        if status \<noteq> 200 then Inl Exception else np_array body)"

text \<open>\<^verbatim>\<open>[{"id": s + i, "text": text, "embedding_index": s + i} for i, text in enumerate(texts)]\<close>\<close>

fun make_chunks :: "nat \<Rightarrow> string list \<Rightarrow> chunk list" where
  "make_chunks s [] = []"
| "make_chunks s (t # ts) =
     \<lparr>id_c = s, text_c = t, embedding_index = s\<rparr> # make_chunks (Suc s) ts"

definition save_index :: "fs \<Rightarrow> string \<Rightarrow> faiss_index \<Rightarrow> metadata \<Rightarrow> ndarray \<Rightarrow> fs" where
  "save_index f name index chunks_metadata embeddings =
     f\<lparr>faiss_files := (faiss_files f)(name \<mapsto> index),
       json_files := (json_files f)(name \<mapsto> chunks_metadata),
       npy_files := (npy_files f)(name \<mapsto> embeddings)\<rparr>"

text \<open>
  \<^verbatim>\<open>faiss.read_index\<close> on a missing file raises the RuntimeError that the FAISS
  wrapper makes of every C++ exception; \<^verbatim>\<open>open\<close> and \<^verbatim>\<open>np.load\<close> raise
  FileNotFoundError. The files are read in this order.
\<close>

definition load_index :: "fs \<Rightarrow> string \<Rightarrow> exn + (faiss_index \<times> metadata \<times> ndarray)" where
  "load_index f name =
     (case faiss_files f name of
        None \<Rightarrow> Inl RuntimeError
      | Some index \<Rightarrow>
          (case json_files f name of
             None \<Rightarrow> Inl FileNotFoundError
           | Some chunks_metadata \<Rightarrow>
               (case npy_files f name of
                  None \<Rightarrow> Inl FileNotFoundError
                | Some embeddings \<Rightarrow> Inr (index, chunks_metadata, embeddings))))"

text \<open>\<^verbatim>\<open>embeddings.shape[1]\<close>\<close>

fun shape_1 :: "ndarray \<Rightarrow> exn + nat" where
  "shape_1 (Arr1 v) = Inl IndexError"
| "shape_1 (Arr2 d rows) = Inr d"

fun create_faiss_index ::
  "client \<Rightarrow> api \<Rightarrow> string \<Rightarrow> fs \<Rightarrow> string \<Rightarrow> string list \<Rightarrow> (exn + faiss_index \<times> metadata) \<times> fs" where
  "create_faiss_index (Cohere_Embedding m it edim) post now f name texts =
     (case get_embedding (Cohere_Embedding m it edim) post (Lst texts) of
        Inl e \<Rightarrow> (Inl e, f)
      | Inr embeddings \<Rightarrow>
          (case index_add (IndexFlatL2 edim []) embeddings of
             Inl e \<Rightarrow> (Inl e, f)
           | Inr index \<Rightarrow>
               (let chunks_metadata =
                      \<lparr>created_at = now, model = m, input_type = Some it,
                       encoding_format = None, total_chunks = length texts,
                       embedding_dim = None, chunks = make_chunks 0 texts,
                       updated_at = None\<rparr>
                in (Inr (index, chunks_metadata),
                    save_index f name index chunks_metadata embeddings))))"
| "create_faiss_index (OpenAI_Embedding m ef) post now f name texts =
     (case get_embedding (OpenAI_Embedding m ef) post (Lst texts) of
        Inl e \<Rightarrow> (Inl e, f)
      | Inr embeddings \<Rightarrow>
          (case shape_1 embeddings of
             Inl e \<Rightarrow> (Inl e, f)
           | Inr actual_dim \<Rightarrow>
               (case index_add (IndexFlatL2 actual_dim []) embeddings of
                  Inl e \<Rightarrow> (Inl e, f)
                | Inr index \<Rightarrow>
                    (let chunks_metadata =
                           \<lparr>created_at = now, model = m, input_type = None,
                            encoding_format = Some ef, total_chunks = length texts,
                            embedding_dim = Some actual_dim, chunks = make_chunks 0 texts,
                            updated_at = None\<rparr>
                     in (Inr (index, chunks_metadata),
                         save_index f name index chunks_metadata embeddings)))))"

subsection \<open>Search\<close>

record result =
  chunk_id :: nat
  text_r :: string
  distance :: rat
  score :: rat
  rank :: nat

text \<open>
  The loop over \<^verbatim>\<open>enumerate(zip(distances[0], indices[0]))\<close>; \<open>i\<close> is the
  position. An exception leaves the loop at the first pair that raises.
\<close>

fun build_results :: "chunk list \<Rightarrow> nat \<Rightarrow> (rat \<times> int) list \<Rightarrow> exn + result list" where
  "build_results cs i [] = Inr []"
| "build_results cs i ((dst, idx) # rest) =
     (case py_get cs idx of
        Inl e \<Rightarrow> Inl e
      | Inr c \<Rightarrow>
          if 1 + dst = 0 then Inl ZeroDivisionError
          else (case build_results cs (i + 1) rest of
                  Inl e \<Rightarrow> Inl e
                | Inr results \<Rightarrow>
                    Inr (\<lparr>chunk_id = id_c c, text_r = text_c c, distance = dst,
                          score = 1 / (1 + dst), rank = i + 1\<rparr> # results)))"

definition search :: "client \<Rightarrow> api \<Rightarrow> fs \<Rightarrow> string \<Rightarrow> string \<Rightarrow> nat \<Rightarrow> exn + result list" where
  "search cl post f name query k =
     (case load_index f name of
        Inl e \<Rightarrow> Inl e
      | Inr (index, chunks_metadata, unused) \<Rightarrow>
          (case get_embedding cl post (Str query) of
             Inl e \<Rightarrow> Inl e
           | Inr query_embedding \<Rightarrow>
               (case reshape_1 query_embedding of
                  Inl e \<Rightarrow> Inl e
                | Inr query_row \<Rightarrow>
                    (case index_search index query_row k of
                       Inl e \<Rightarrow> Inl e
                     | Inr (distances, indices) \<Rightarrow>
                         (case (distances, indices) of
                            (d0 # drest, i0 # irest) \<Rightarrow> build_results (chunks chunks_metadata) 0 (zip d0 i0)
                          | _ \<Rightarrow> Inl IndexError)))))"

subsection \<open>Incremental update\<close>

text \<open>
  The part of \<^verbatim>\<open>update_index\<close> after a successful load. The Cohere class builds
  the new FAISS index with its configured \<^verbatim>\<open>embedding_dim\<close>; the OpenAI class
  takes \<^verbatim>\<open>embeddings.shape[1]\<close> of the stacked array and also writes it to the
  metadata.
\<close>

definition extend_metadata :: "metadata \<Rightarrow> string \<Rightarrow> string list \<Rightarrow> metadata" where
  "extend_metadata chunks_metadata now new_texts =
     (let start_id = length (chunks chunks_metadata);
          cs = chunks chunks_metadata @ make_chunks start_id new_texts
      in chunks_metadata\<lparr>chunks := cs, total_chunks := length cs, updated_at := Some now\<rparr>)"

fun update_loaded ::
  "client \<Rightarrow> api \<Rightarrow> string \<Rightarrow> fs \<Rightarrow> string \<Rightarrow> string list \<Rightarrow> metadata \<Rightarrow> ndarray \<Rightarrow> (exn + unit) \<times> fs" where
  "update_loaded (Cohere_Embedding m it edim) post now f name new_texts chunks_metadata embeddings =
     (case get_embedding (Cohere_Embedding m it edim) post (Lst new_texts) of
        Inl e \<Rightarrow> (Inl e, f)
      | Inr new_embeddings \<Rightarrow>
          (case np_vstack embeddings new_embeddings of
             Inl e \<Rightarrow> (Inl e, f)
           | Inr stacked \<Rightarrow>
               (case index_add (IndexFlatL2 edim []) stacked of
                  Inl e \<Rightarrow> (Inl e, f)
                | Inr index \<Rightarrow>
                    (Inr (), save_index f name index
                               (extend_metadata chunks_metadata now new_texts) stacked))))"
| "update_loaded (OpenAI_Embedding m ef) post now f name new_texts chunks_metadata embeddings =
     (case get_embedding (OpenAI_Embedding m ef) post (Lst new_texts) of
        Inl e \<Rightarrow> (Inl e, f)
      | Inr new_embeddings \<Rightarrow>
          (case np_vstack embeddings new_embeddings of
             Inl e \<Rightarrow> (Inl e, f)
           | Inr stacked \<Rightarrow>
               (case shape_1 stacked of
                  Inl e \<Rightarrow> (Inl e, f)
                | Inr actual_dim \<Rightarrow>
                    (case index_add (IndexFlatL2 actual_dim []) stacked of
                       Inl e \<Rightarrow> (Inl e, f)
                     | Inr index \<Rightarrow>
                         (Inr (), save_index f name index
                                    ((extend_metadata chunks_metadata now new_texts)
                                       \<lparr>embedding_dim := Some actual_dim\<rparr>) stacked)))))"

text \<open>
  \<^verbatim>\<open>update_index\<close>: only a FileNotFoundError of the load is caught, and then the
  index is created from the new texts; any other exception of the load propagates.
\<close>

definition update_index ::
  "client \<Rightarrow> api \<Rightarrow> string \<Rightarrow> fs \<Rightarrow> string \<Rightarrow> string list \<Rightarrow> (exn + unit) \<times> fs" where
  "update_index cl post now f name new_texts =
     (case load_index f name of
        Inl FileNotFoundError \<Rightarrow>
          (case create_faiss_index cl post now f name new_texts of
             (Inl e, f') \<Rightarrow> (Inl e, f')
           | (Inr r, f') \<Rightarrow> (Inr (), f'))
      | Inl e \<Rightarrow> (Inl e, f)
      | Inr (index, chunks_metadata, embeddings) \<Rightarrow>
          update_loaded cl post now f name new_texts chunks_metadata embeddings)"

subsection \<open>Consistency of a stored index\<close>

text \<open>
  The three files of an index agree: \<^verbatim>\<open>total_chunks\<close> is the number of chunks and
  of stored rows, the chunk ids and embedding indices are the positions, the FAISS
  index holds the rows of the embedding array, and every row has the one, positive
  dimension, which is also the \<^verbatim>\<open>embedding_dim\<close> of the metadata when that key is
  present.
\<close>

fun consistent :: "faiss_index \<Rightarrow> metadata \<Rightarrow> ndarray \<Rightarrow> bool" where
  "consistent (IndexFlatL2 d xb) m (Arr2 c rows) =
     (total_chunks m = length (chunks m) \<and> length rows = length (chunks m)
      \<and> map id_c (chunks m) = [0 ..< length (chunks m)]
      \<and> map embedding_index (chunks m) = [0 ..< length (chunks m)]
      \<and> d = c \<and> xb = rows \<and> 0 < c \<and> list_all (\<lambda>v. length v = c) rows
      \<and> (case embedding_dim m of None \<Rightarrow> True | Some e \<Rightarrow> e = c))"
| "consistent (IndexFlatL2 d xb) m (Arr1 v) = False"




text \<open>
  The dimension of a stored index, when its three files agree on one: the \<^verbatim>\<open>d\<close>
  of the FAISS index, the column count of the embedding array and, where present,
  the \<^verbatim>\<open>embedding_dim\<close> of the metadata.
\<close>

fun index_dim :: "faiss_index \<Rightarrow> metadata \<Rightarrow> ndarray \<Rightarrow> nat option" where
  "index_dim (IndexFlatL2 d xb) m (Arr2 c rows) =
     (if d = c \<and> (embedding_dim m = None \<or> embedding_dim m = Some c) then Some c else None)"
| "index_dim (IndexFlatL2 d xb) m (Arr1 v) = None"

definition stored_dim :: "fs \<Rightarrow> string \<Rightarrow> nat option" where
  "stored_dim f name =
     (case load_index f name of Inr (index, m, a) \<Rightarrow> index_dim index m a | Inl e \<Rightarrow> None)"

text \<open>A sequence of \<^verbatim>\<open>update_index\<close> calls on one name, each with its own object,
  provider response, time and texts.\<close>

fun update_all :: "fs \<Rightarrow> string \<Rightarrow> (client \<times> api \<times> string \<times> string list) list \<Rightarrow> fs" where
  "update_all f name [] = f"
| "update_all f name ((cl, post, now, texts) # calls) =
     update_all (snd (update_index cl post now f name texts)) name calls"

text \<open>A provider that answers 200 and embeds every text on its own.\<close>

definition pointwise :: "(string \<Rightarrow> vec) \<Rightarrow> api" where
  "pointwise emb ts = (200, map emb ts)"

subsection \<open>A small directory for the concrete cases\<close>

definition demo_embed :: "string \<Rightarrow> vec" where
  "demo_embed t =
     (if t = ''a'' then [1, 0, 0] else if t = ''b'' then [0, 1, 0] else [0, 0, 1])"

definition demo_openai :: client where
  "demo_openai = OpenAI_Embedding ''text-embedding-ada-002'' ''float''"

definition demo_cohere :: client where
  "demo_cohere = Cohere_Embedding ''embed-english-v3.0'' ''classification'' 3"

definition meta_ab :: metadata where
  "meta_ab =
     \<lparr>created_at = ''t0'', model = ''text-embedding-ada-002'', input_type = None,
      encoding_format = Some ''float'', total_chunks = 2, embedding_dim = Some 3,
      chunks = [\<lparr>id_c = 0, text_c = ''a'', embedding_index = 0\<rparr>,
                \<lparr>id_c = 1, text_c = ''b'', embedding_index = 1\<rparr>],
      updated_at = None\<rparr>"

text \<open>The directory after \<^verbatim>\<open>create_faiss_index("kb", ["a", "b"])\<close>.\<close>

definition fs_ab :: fs where
  "fs_ab = save_index empty_fs ''kb'' (IndexFlatL2 3 [[1, 0, 0], [0, 1, 0]]) meta_ab
             (Arr2 3 [[1, 0, 0], [0, 1, 0]])"

text \<open>The directory after the further \<^verbatim>\<open>update_index("kb", ["c"])\<close>.\<close>

definition meta_abc :: metadata where
  "meta_abc =
     meta_ab\<lparr>chunks := chunks meta_ab @ [\<lparr>id_c = 2, text_c = ''c'', embedding_index = 2\<rparr>],
              total_chunks := 3, updated_at := Some ''t1''\<rparr>"

definition fs_abc :: fs where
  "fs_abc = save_index fs_ab ''kb'' (IndexFlatL2 3 [[1, 0, 0], [0, 1, 0], [0, 0, 1]]) meta_abc
              (Arr2 3 [[1, 0, 0], [0, 1, 0], [0, 0, 1]])"

text \<open>An index without vectors and chunks.\<close>

definition fs_none :: fs where
  "fs_none = save_index empty_fs ''kb'' (IndexFlatL2 3 [])
               (meta_ab\<lparr>total_chunks := 0, chunks := []\<rparr>) (Arr2 3 [])"

text \<open>A directory whose metadata counts two chunks over one stored row of length 2.\<close>

definition fs_corrupt :: fs where
  "fs_corrupt = save_index empty_fs ''kb'' (IndexFlatL2 3 [[1, 0, 0]]) meta_ab (Arr2 3 [[1, 0]])"

subsection \<open>The search of the specification\<close>

text \<open>
  The search as the specification words it, over the stored rows and the chunk list:
  the squared distance of the query to every stored vector, the \<open>k\<close> smallest with
  ties going to the lower position, in ascending order, ranks from 1; all of them
  when fewer than \<open>k\<close> are stored, none when the store is empty.
\<close>

definition spec_result :: "chunk list \<Rightarrow> nat \<times> rat \<times> nat \<Rightarrow> result" where
  "spec_result cs p =
     (case p of (i, dst, j) \<Rightarrow>
        \<lparr>chunk_id = id_c (cs ! j), text_r = text_c (cs ! j), distance = dst,
         score = 1 / (1 + dst), rank = i + 1\<rparr>)"

definition spec_search :: "vec list \<Rightarrow> chunk list \<Rightarrow> vec \<Rightarrow> nat \<Rightarrow> result list" where
  "spec_search store cs q k =
     map (spec_result cs)
       (enumerate 0 (take k (sort (zip (map (L2sqr q) store) [0 ..< length store]))))"

text \<open>The labels of FAISS are 64-bit integers; a position as such a label.\<close>

definition with_int_label :: "rat \<times> nat \<Rightarrow> rat \<times> int" where
  "with_int_label p = (fst p, int (snd p))"

section \<open>Properties\<close>

subsection \<open>Auxiliary facts\<close>

lemma length_make_chunks: "length (make_chunks s ts) = length ts"
  by (induction ts arbitrary: s) auto

lemma ids_make_chunks: "map id_c (make_chunks s ts) = [s ..< s + length ts]"
  by (induction ts arbitrary: s) (auto simp: upt_rec)


lemma texts_make_chunks: "map text_c (make_chunks s ts) = ts"
  by (induction ts arbitrary: s) auto

lemma np_array_Inr:
  "np_array body = Inr a \<Longrightarrow>
     (body = [] \<and> a = Arr1 []) \<or>
     (body \<noteq> [] \<and> a = Arr2 (length (hd body)) body \<and> list_all (\<lambda>w. length w = length (hd body)) body)"
  by (cases body) (auto split: if_splits)






lemma update_loaded_fail:
  "update_loaded cl post now f name ts m a = (Inl e, f') \<Longrightarrow> f' = f"
  by (cases cl) (auto split: sum.splits)

lemma update_loaded_success:
  assumes "update_loaded cl post now f name ts m a = (Inr r, f')"
  shows "\<exists>new c rows m'. get_embedding cl post (Lst ts) = Inr new \<and>
           np_vstack a new = Inr (Arr2 c rows) \<and>
           f' = save_index f name (IndexFlatL2 c rows) m' (Arr2 c rows) \<and>
           chunks m' = chunks m @ make_chunks (length (chunks m)) ts \<and>
           total_chunks m' = length (chunks m') \<and>
           (embedding_dim m' = embedding_dim m \<or> embedding_dim m' = Some c)"
proof (cases cl)
  case (Cohere_Embedding mo it edim)
  with assms obtain new stacked index where ge: "get_embedding cl post (Lst ts) = Inr new"
    and vs: "np_vstack a new = Inr stacked"
    and ia: "index_add (IndexFlatL2 edim []) stacked = Inr index"
    by (auto split: sum.splits)
  from ia obtain c rows where st: "stacked = Arr2 c rows" and ix: "index = IndexFlatL2 c rows"
    by (cases stacked) (auto split: if_splits)
  show ?thesis using assms Cohere_Embedding ge vs ia st ix
    by (auto simp: extend_metadata_def Let_def)
next
  case (OpenAI_Embedding mo ef)
  with assms obtain new stacked d index where ge: "get_embedding cl post (Lst ts) = Inr new"
    and vs: "np_vstack a new = Inr stacked"
    and sh: "shape_1 stacked = Inr d"
    and ia: "index_add (IndexFlatL2 d []) stacked = Inr index"
    by (auto split: sum.splits)
  from sh obtain rows where st: "stacked = Arr2 d rows" by (cases stacked) auto
  from ia st have ix: "index = IndexFlatL2 d rows" by auto
  show ?thesis using assms OpenAI_Embedding ge vs sh ia st ix
    by (auto simp: extend_metadata_def Let_def)
qed


lemma vstack_rows:
  assumes "np_vstack (Arr2 c rows) new = Inr (Arr2 c' rows')"
  shows "c' = c \<and> (\<exists>more. rows' = rows @ more \<and> atleast_2d new = (c, more))"
  using assms by (auto simp: np_vstack_def split: prod.splits if_splits)



lemma load_save_same: "load_index (save_index f name i m a) name = Inr (i, m, a)"
  by (simp add: load_index_def save_index_def)












lemma load_fs_ab:
  "load_index fs_ab ''kb'' =
     Inr (IndexFlatL2 3 [[1, 0, 0], [0, 1, 0]], meta_ab, Arr2 3 [[1, 0, 0], [0, 1, 0]])"
  by (simp add: fs_ab_def load_save_same)

subsection \<open>The central invariant\<close>



subsection \<open>Saving and loading\<close>



subsection \<open>Failing and missing cases of the update\<close>

lemma np_array_mismatch:
  assumes "\<exists>v\<in>set body. length v \<noteq> d"
  shows "np_array body = Inl ValueError \<or> (\<exists>c. c \<noteq> d \<and> np_array body = Inr (Arr2 c body))"
proof (cases body)
  case Nil
  with assms show ?thesis by simp
next
  case (Cons v vs)
  show ?thesis
  proof (cases "list_all (\<lambda>w. length w = length v) vs")
    case True
    with assms Cons have "length v \<noteq> d" by (auto simp: list_all_iff)
    with True Cons show ?thesis by simp
  next
    case False
    with Cons show ?thesis by simp
  qed
qed

lemma update_loaded_mismatch:
  assumes "post ts = (200, body)" "\<exists>v\<in>set body. length v \<noteq> d"
  shows "update_loaded cl post now f name ts m (Arr2 d rows) = (Inl ValueError, f)"
proof -
  from np_array_mismatch [OF assms(2)]
  have "get_embedding cl post (Lst ts) = Inl ValueError \<or>
        (\<exists>c. c \<noteq> d \<and> get_embedding cl post (Lst ts) = Inr (Arr2 c body))"
    using assms(1) by (cases cl) auto
  then show ?thesis
  proof
    assume "get_embedding cl post (Lst ts) = Inl ValueError"
    then show ?thesis by (cases cl) simp_all
  next
    assume "\<exists>c. c \<noteq> d \<and> get_embedding cl post (Lst ts) = Inr (Arr2 c body)"
    then obtain c where "c \<noteq> d" "get_embedding cl post (Lst ts) = Inr (Arr2 c body)" by blast
    then show ?thesis by (cases cl) (simp_all add: np_vstack_def)
  qed
qed

text \<open>
  The \<^verbatim>\<open>except FileNotFoundError\<close> branch: it is taken when the FAISS file of the
  name exists and the metadata or the embedding array does not.
\<close>

lemma update_creates_when_load_not_found:
  assumes "load_index f name = Inl FileNotFoundError"
  shows "snd (update_index cl post now f name new_texts)
           = snd (create_faiss_index cl post now f name new_texts)"
  using assms by (simp add: update_index_def split: prod.splits sum.splits)

text \<open>
  Claim C4. On an existing index whose stored embedding array has \<open>d\<close> columns, an
  update for which the provider returns a vector of another length raises
  ValueError (numpy's error for the mismatch) and leaves the directory as it was:
  no chunk, no row, no file changes.
\<close>

theorem update_dimension_mismatch_atomic:
  assumes "load_index f name = Inr (index, chunks_metadata, Arr2 d rows)"
    and "post new_texts = (200, body)"
    and "\<exists>v\<in>set body. length v \<noteq> d"
  shows "update_index cl post now f name new_texts = (Inl ValueError, f)"
proof -
  have "update_loaded cl post now f name new_texts chunks_metadata (Arr2 d rows) = (Inl ValueError, f)"
    using assms(2) assms(3) by (rule update_loaded_mismatch)
  with assms(1) show ?thesis by (simp add: update_index_def)
qed

theorem update_dimension_mismatch_atomic_witness:
  "load_index fs_ab ''kb''
     = Inr (IndexFlatL2 3 [[1, 0, 0], [0, 1, 0]], meta_ab, Arr2 3 [[1, 0, 0], [0, 1, 0]])
   \<and> (\<exists>v\<in>set [[1, 0 :: rat]]. length v \<noteq> 3)
   \<and> update_index demo_cohere (\<lambda>ts. (200, [[1, 0]])) ''t1'' fs_ab ''kb'' [''c'']
       = (Inl ValueError, fs_ab)"
proof -
  have v: "\<exists>v\<in>set [[1, 0 :: rat]]. length v \<noteq> 3" by simp
  have "update_index demo_cohere (\<lambda>ts. (200, [[1, 0]])) ''t1'' fs_ab ''kb'' [''c'']
          = (Inl ValueError, fs_ab)"
    by (rule update_dimension_mismatch_atomic [OF load_fs_ab _ v]) simp
  with load_fs_ab v show ?thesis by blast
qed

text \<open>
  Claim C5. For a name without any file, \<^verbatim>\<open>update_index\<close> creates nothing: the load
  fails at its first read, that of the FAISS file, and this failure reaches the caller
  with the directory unchanged.
\<close>

theorem update_missing_index_not_created:
  assumes "faiss_files f name = None" "json_files f name = None" "npy_files f name = None"
  shows "load_index f name = Inl RuntimeError
         \<and> update_index cl post now f name new_texts = (Inl RuntimeError, f)"
  using assms by (simp add: update_index_def load_index_def)

theorem update_missing_index_not_created_witness:
  "faiss_files empty_fs ''kb'' = None \<and> json_files empty_fs ''kb'' = None
   \<and> npy_files empty_fs ''kb'' = None
   \<and> update_index demo_openai (pointwise demo_embed) ''t0'' empty_fs ''kb'' [''a'']
       = (Inl RuntimeError, empty_fs)"
proof -
  have a: "faiss_files empty_fs ''kb'' = None" and b: "json_files empty_fs ''kb'' = None"
    and c: "npy_files empty_fs ''kb'' = None"
    by (simp_all add: empty_fs_def)
  from update_missing_index_not_created [OF a b c] a b c show ?thesis by blast
qed

subsection \<open>Loading does not validate\<close>

text \<open>
  Claim C6, as the code has it. \<^verbatim>\<open>load_index\<close> checks nothing: when the three files
  of a name exist it returns them as they are stored.
\<close>

theorem load_unchecked:
  assumes "faiss_files f name = Some index" "json_files f name = Some chunks_metadata"
    "npy_files f name = Some embeddings"
  shows "load_index f name = Inr (index, chunks_metadata, embeddings)"
  using assms by (simp add: load_index_def)

theorem load_unchecked_witness:
  "faiss_files fs_corrupt ''kb'' = Some (IndexFlatL2 3 [[1, 0, 0]])
   \<and> json_files fs_corrupt ''kb'' = Some meta_ab
   \<and> npy_files fs_corrupt ''kb'' = Some (Arr2 3 [[1, 0]])
   \<and> load_index fs_corrupt ''kb'' = Inr (IndexFlatL2 3 [[1, 0, 0]], meta_ab, Arr2 3 [[1, 0]])"
proof -
  have a: "faiss_files fs_corrupt ''kb'' = Some (IndexFlatL2 3 [[1, 0, 0]])"
    and b: "json_files fs_corrupt ''kb'' = Some meta_ab"
    and c: "npy_files fs_corrupt ''kb'' = Some (Arr2 3 [[1, 0]])"
    by (simp_all add: fs_corrupt_def save_index_def)
  from load_unchecked [OF a b c] a b c show ?thesis by blast
qed

text \<open>
  The claim as stated fails: in \<open>fs_corrupt\<close> the metadata counts two chunks, the
  embedding array has one row, and that row has length 2 under a recorded dimension
  of 3; the load returns the files.
\<close>

theorem load_corrupt_counterexample:
  "total_chunks meta_ab \<noteq> length [[1, 0 :: rat]]
   \<and> length [1, 0 :: rat] \<noteq> 3
   \<and> embedding_dim meta_ab = Some 3
   \<and> load_index fs_corrupt ''kb'' = Inr (IndexFlatL2 3 [[1, 0, 0]], meta_ab, Arr2 3 [[1, 0]])"
  by (simp add: meta_ab_def fs_corrupt_def load_index_def save_index_def)

subsection \<open>The update appends\<close>

text \<open>
  Claim C8. After a successful update of an existing index the stored rows are the
  old rows followed by the rows of the new embeddings, the chunks are the old
  chunks followed by one chunk per new text, in input order, with ids continuing
  from the old number of chunks; \<^verbatim>\<open>total_chunks\<close> is the new number of chunks.
\<close>

theorem update_append_only:
  assumes "load_index f name = Inr (index, m, Arr2 d rows)"
    and "update_index cl post now f name new_texts = (Inr u, f')"
  shows "\<exists>m' new more.
           load_index f' name = Inr (IndexFlatL2 d (rows @ more), m', Arr2 d (rows @ more))
           \<and> get_embedding cl post (Lst new_texts) = Inr new \<and> atleast_2d new = (d, more)
           \<and> chunks m' = chunks m @ make_chunks (length (chunks m)) new_texts
           \<and> take (length (chunks m)) (chunks m') = chunks m
           \<and> take (length rows) (rows @ more) = rows
           \<and> map id_c (make_chunks (length (chunks m)) new_texts)
               = [length (chunks m) ..< length (chunks m) + length new_texts]
           \<and> map text_c (make_chunks (length (chunks m)) new_texts) = new_texts
           \<and> total_chunks m' = length (chunks m) + length new_texts"
proof -
  from assms have up: "update_loaded cl post now f name new_texts m (Arr2 d rows) = (Inr u, f')"
    by (simp add: update_index_def)
  from update_loaded_success [OF up] obtain new c rows' m' where
    ge: "get_embedding cl post (Lst new_texts) = Inr new" and
    vs: "np_vstack (Arr2 d rows) new = Inr (Arr2 c rows')" and
    f': "f' = save_index f name (IndexFlatL2 c rows') m' (Arr2 c rows')" and
    ch: "chunks m' = chunks m @ make_chunks (length (chunks m)) new_texts" and
    tc: "total_chunks m' = length (chunks m')"
    by blast
  from vstack_rows [OF vs] obtain more where c: "c = d" and r: "rows' = rows @ more"
    and al: "atleast_2d new = (d, more)" by blast
  have "load_index f' name = Inr (IndexFlatL2 d (rows @ more), m', Arr2 d (rows @ more))"
    using f' c r by (simp add: load_save_same)
  moreover have "total_chunks m' = length (chunks m) + length new_texts"
    using tc ch by (simp add: length_make_chunks)
  ultimately show ?thesis
    using ge al ch by (auto simp: ids_make_chunks texts_make_chunks)
qed

lemma demo_update:
  "update_index demo_cohere (pointwise demo_embed) ''t1'' fs_ab ''kb'' [''c''] = (Inr (), fs_abc)"
  by (simp add: update_index_def load_fs_ab demo_cohere_def pointwise_def demo_embed_def
        np_vstack_def extend_metadata_def Let_def meta_ab_def meta_abc_def fs_abc_def
        numeral_2_eq_2 numeral_3_eq_3)

theorem update_append_only_witness:
  "load_index fs_ab ''kb''
     = Inr (IndexFlatL2 3 [[1, 0, 0], [0, 1, 0]], meta_ab, Arr2 3 [[1, 0, 0], [0, 1, 0]])
   \<and> update_index demo_cohere (pointwise demo_embed) ''t1'' fs_ab ''kb'' [''c'']
       = (Inr (), fs_abc)
   \<and> (\<exists>m' more.
         load_index fs_abc ''kb''
           = Inr (IndexFlatL2 3 ([[1, 0, 0], [0, 1, 0]] @ more), m',
                  Arr2 3 ([[1, 0, 0], [0, 1, 0]] @ more))
         \<and> chunks m' = chunks meta_ab @ make_chunks (length (chunks meta_ab)) [''c''])"
proof -
  from update_append_only [OF load_fs_ab demo_update]
  have "\<exists>m' more.
         load_index fs_abc ''kb''
           = Inr (IndexFlatL2 3 ([[1, 0, 0], [0, 1, 0]] @ more), m',
                  Arr2 3 ([[1, 0, 0], [0, 1, 0]] @ more))
         \<and> chunks m' = chunks meta_ab @ make_chunks (length (chunks meta_ab)) [''c'']"
    by blast
  with load_fs_ab demo_update show ?thesis by blast
qed


subsection \<open>The dimension of an index\<close>

lemma stored_dim_load:
  assumes "stored_dim f name = Some d"
  shows "\<exists>xb m rows. load_index f name = Inr (IndexFlatL2 d xb, m, Arr2 d rows)
           \<and> (embedding_dim m = None \<or> embedding_dim m = Some d)"
proof (cases "load_index f name")
  case (Inl e)
  with assms show ?thesis by (simp add: stored_dim_def)
next
  case (Inr t)
  obtain i m a where t: "t = (i, m, a)" by (cases t)
  obtain d0 xb where i: "i = IndexFlatL2 d0 xb" by (cases i)
  from assms Inr t i show ?thesis
    by (cases a) (auto simp: stored_dim_def split: if_splits)
qed

lemma update_keeps_dim:
  assumes sd: "stored_dim f name = Some d"
    and up: "update_index cl post now f name ts = (r, f')"
  shows "stored_dim f' name = Some d"
proof -
  from stored_dim_load [OF sd] obtain xb m rows where
    ld: "load_index f name = Inr (IndexFlatL2 d xb, m, Arr2 d rows)" and
    ed: "embedding_dim m = None \<or> embedding_dim m = Some d" by blast
  from up ld have ul: "update_loaded cl post now f name ts m (Arr2 d rows) = (r, f')"
    by (simp add: update_index_def)
  show ?thesis
  proof (cases r)
    case (Inl e)
    with ul update_loaded_fail have "f' = f" by blast
    with sd show ?thesis by simp
  next
    case (Inr u)
    with ul update_loaded_success obtain new c rows' m' where
      vs: "np_vstack (Arr2 d rows) new = Inr (Arr2 c rows')" and
      f': "f' = save_index f name (IndexFlatL2 c rows') m' (Arr2 c rows')" and
      ed': "embedding_dim m' = embedding_dim m \<or> embedding_dim m' = Some c"
      by blast
    from vstack_rows [OF vs] have "c = d" by blast
    with f' ed ed' show ?thesis
      by (auto simp: stored_dim_def load_save_same)
  qed
qed

lemma update_all_keeps_dim:
  "stored_dim f name = Some d \<Longrightarrow> stored_dim (update_all f name calls) name = Some d"
proof (induction calls arbitrary: f)
  case Nil
  then show ?case by simp
next
  case (Cons call calls)
  obtain cl post now ts where call: "call = (cl, post, now, ts)" by (cases call)
  obtain r f' where up: "update_index cl post now f name ts = (r, f')"
    by (cases "update_index cl post now f name ts")
  from update_keeps_dim [OF Cons.prems up] have "stored_dim f' name = Some d" .
  from Cons.IH [OF this] call up show ?case by simp
qed

text \<open>
  Claim C9. An index whose files agree on the dimension \<open>d\<close> still has the dimension
  \<open>d\<close> after any sequence of \<^verbatim>\<open>update_index\<close> calls, by either class and with any
  provider responses; and a call for which the provider returns a vector of another
  length is rejected with ValueError and changes nothing.
\<close>

theorem dimension_fixed:
  assumes "stored_dim f name = Some d"
  shows "stored_dim (update_all f name calls) name = Some d
         \<and> (post ts = (200, body) \<and> (\<exists>v\<in>set body. length v \<noteq> d)
              \<longrightarrow> update_index cl post now f name ts = (Inl ValueError, f))"
proof -
  from stored_dim_load [OF assms] obtain xb m rows where
    ld: "load_index f name = Inr (IndexFlatL2 d xb, m, Arr2 d rows)" by blast
  have "update_index cl post now f name ts = (Inl ValueError, f)"
    if "post ts = (200, body)" "\<exists>v\<in>set body. length v \<noteq> d"
  proof -
    have "update_loaded cl post now f name ts m (Arr2 d rows) = (Inl ValueError, f)"
      using that by (rule update_loaded_mismatch)
    with ld show ?thesis by (simp add: update_index_def)
  qed
  with update_all_keeps_dim [OF assms] show ?thesis by blast
qed

lemma stored_dim_fs_ab: "stored_dim fs_ab ''kb'' = Some 3"
  by (simp add: stored_dim_def load_fs_ab meta_ab_def)

theorem dimension_fixed_witness:
  "stored_dim fs_ab ''kb'' = Some 3
   \<and> stored_dim (update_all fs_ab ''kb''
        [(demo_cohere, pointwise demo_embed, ''t1'', [''c'']),
         (demo_openai, \<lambda>ts. (200, [[1, 0]]), ''t2'', [''d''])]) ''kb'' = Some 3"
  using dimension_fixed [OF stored_dim_fs_ab] stored_dim_fs_ab by blast

subsection \<open>The index is rebuilt over the whole store\<close>

lemma chunks_are_made:
  "map id_c cs = [s ..< s + length cs] \<Longrightarrow> map embedding_index cs = [s ..< s + length cs]
     \<Longrightarrow> cs = make_chunks s (map text_c cs)"
proof (induction cs arbitrary: s)
  case Nil
  then show ?case by simp
next
  case (Cons c cs)
  have "[s ..< s + length (c # cs)] = s # [Suc s ..< Suc s + length cs]"
    by (simp del: upt_Suc add: upt_conv_Cons)
  with Cons.prems have hd: "id_c c = s" "embedding_index c = s"
    and tl: "map id_c cs = [Suc s ..< Suc s + length cs]"
      "map embedding_index cs = [Suc s ..< Suc s + length cs]"
    by (simp_all del: upt_Suc)
  from Cons.IH [OF tl] hd show ?case by simp
qed

lemma make_chunks_append:
  "make_chunks s (ts @ us) = make_chunks s ts @ make_chunks (s + length ts) us"
  by (induction ts arbitrary: s) auto

lemma create_saves:
  assumes "create_faiss_index cl post now f name texts = (Inr r, f')"
  shows "\<exists>c rows m. get_embedding cl post (Lst texts) = Inr (Arr2 c rows) \<and>
           f' = save_index f name (IndexFlatL2 c rows) m (Arr2 c rows) \<and>
           chunks m = make_chunks 0 texts \<and> total_chunks m = length texts"
proof (cases cl)
  case (Cohere_Embedding mo it edim)
  with assms obtain a index where ge: "get_embedding cl post (Lst texts) = Inr a"
    and ia: "index_add (IndexFlatL2 edim []) a = Inr index"
    by (auto split: sum.splits simp: Let_def)
  from ia obtain c rows where "a = Arr2 c rows" "c = edim" "index = IndexFlatL2 c rows"
    by (cases a) (auto split: if_splits)
  with assms Cohere_Embedding ge ia show ?thesis by (auto simp: Let_def)
next
  case (OpenAI_Embedding mo ef)
  with assms obtain a d index where ge: "get_embedding cl post (Lst texts) = Inr a"
    and sh: "shape_1 a = Inr d"
    and ia: "index_add (IndexFlatL2 d []) a = Inr index"
    by (auto split: sum.splits simp: Let_def)
  from sh obtain rows where a: "a = Arr2 d rows" by (cases a) auto
  with ia have "index = IndexFlatL2 d rows" by auto
  with assms OpenAI_Embedding ge sh ia a show ?thesis by (auto simp: Let_def)
qed

lemma get_embedding_pointwise:
  "get_embedding cl (pointwise emb) (Lst ts) = np_array (map emb ts)"
  by (cases cl) (simp_all add: pointwise_def)

lemma np_array_Arr2:
  "np_array body = Inr (Arr2 c rows) \<Longrightarrow> body \<noteq> [] \<and> rows = body \<and> list_all (\<lambda>w. length w = c) body"
  using np_array_Inr [of body "Arr2 c rows"] by auto

lemma search_same_index:
  assumes "load_index f name = Inr (i, m, a)" "load_index g name' = Inr (i, m', a')"
    "chunks m = chunks m'"
  shows "search cl post f name q k = search cl post g name' q k"
  using assms by (simp add: search_def split: sum.splits prod.splits list.splits)


text \<open>
  Claim C10. Take an existing consistent index whose stored rows are the provider's
  embeddings of its chunk texts, the provider embedding every text on its own. After
  a successful \<^verbatim>\<open>update_index\<close> the FAISS file is a flat L2 index over the old rows
  followed by the new ones, and it is, with the embedding array and the chunk list,
  what a successful \<^verbatim>\<open>create_faiss_index\<close> on all the texts writes; so every search
  returns the same on both.
\<close>

theorem rebuild_equivalence:
  assumes ld: "load_index f name = Inr (index, m, Arr2 d rows)"
    and co: "consistent index m (Arr2 d rows)"
    and em: "rows = map emb (map text_c (chunks m))"
    and up: "update_index cl (pointwise emb) now f name new_texts = (Inr u, f2)"
    and cr: "create_faiss_index cl' (pointwise emb) now' g name
               (map text_c (chunks m) @ new_texts) = (Inr r, f3)"
  shows "faiss_files f2 name = Some (IndexFlatL2 d (rows @ map emb new_texts))
         \<and> faiss_files f3 name = faiss_files f2 name
         \<and> npy_files f3 name = npy_files f2 name
         \<and> map_option chunks (json_files f3 name) = map_option chunks (json_files f2 name)
         \<and> map_option total_chunks (json_files f3 name)
             = map_option total_chunks (json_files f2 name)
         \<and> search cl'' post f2 name q k = search cl'' post f3 name q k"
proof -
  let ?old = "map text_c (chunks m)"
  from co have pos: "0 < d" and ids: "map id_c (chunks m) = [0 ..< length (chunks m)]"
    and eis: "map embedding_index (chunks m) = [0 ..< length (chunks m)]"
    by (cases index; simp)+
  from up ld have ul: "update_loaded cl (pointwise emb) now f name new_texts m (Arr2 d rows) = (Inr u, f2)"
    by (simp add: update_index_def)
  from update_loaded_success [OF ul] obtain new c rows' m2 where
    ge: "get_embedding cl (pointwise emb) (Lst new_texts) = Inr new" and
    vs: "np_vstack (Arr2 d rows) new = Inr (Arr2 c rows')" and
    f2: "f2 = save_index f name (IndexFlatL2 c rows') m2 (Arr2 c rows')" and
    ch2: "chunks m2 = chunks m @ make_chunks (length (chunks m)) new_texts" and
    tc2: "total_chunks m2 = length (chunks m2)"
    by blast
  from vstack_rows [OF vs] obtain more where c: "c = d" and r': "rows' = rows @ more"
    and al: "atleast_2d new = (d, more)" by blast
  from ge have na: "np_array (map emb new_texts) = Inr new"
    by (simp add: get_embedding_pointwise)
  from np_array_Inr [OF na] al pos
  have ne: "new_texts \<noteq> []" and more: "more = map emb new_texts"
    and alln: "list_all (\<lambda>w. length w = d) (map emb new_texts)"
    by auto
  from create_saves [OF cr] obtain c3 rows3 m3 where
    ge3: "get_embedding cl' (pointwise emb) (Lst (?old @ new_texts)) = Inr (Arr2 c3 rows3)" and
    f3: "f3 = save_index g name (IndexFlatL2 c3 rows3) m3 (Arr2 c3 rows3)" and
    ch3: "chunks m3 = make_chunks 0 (?old @ new_texts)" and
    tc3: "total_chunks m3 = length (?old @ new_texts)"
    by blast
  from ge3 have "np_array (map emb (?old @ new_texts)) = Inr (Arr2 c3 rows3)"
    by (simp add: get_embedding_pointwise)
  from np_array_Arr2 [OF this] have rows3: "rows3 = map emb (?old @ new_texts)"
    and all3: "list_all (\<lambda>w. length w = c3) (map emb (?old @ new_texts))" by auto
  from ne obtain t where "t \<in> set new_texts" by (cases new_texts) auto
  with alln all3 have c3: "c3 = d" by (auto simp: list_all_iff)
  from rows3 em more have rows3': "rows3 = rows @ more" by simp
  from chunks_are_made [of "chunks m" 0] ids eis have "chunks m = make_chunks 0 ?old" by simp
  with ch2 ch3 have cheq: "chunks m3 = chunks m2"
    by (simp add: make_chunks_append)
  with tc2 tc3 ch3 have tceq: "total_chunks m3 = total_chunks m2"
    by (simp add: length_make_chunks)
  have l2: "load_index f2 name = Inr (IndexFlatL2 d (rows @ more), m2, Arr2 d (rows @ more))"
    using f2 c r' by (simp add: load_save_same)
  have l3: "load_index f3 name = Inr (IndexFlatL2 d (rows @ more), m3, Arr2 d (rows @ more))"
    using f3 c3 rows3' by (simp add: load_save_same)
  have "search cl'' post f2 name q k = search cl'' post f3 name q k"
    using l2 l3 cheq [symmetric] by (rule search_same_index)
  then show ?thesis
    using f2 f3 c c3 r' rows3' more cheq tceq by (simp add: save_index_def)
qed

lemma consistent_fs_ab:
  "consistent (IndexFlatL2 3 [[1, 0, 0], [0, 1, 0]]) meta_ab (Arr2 3 [[1, 0, 0], [0, 1, 0]])"
  by (simp add: meta_ab_def upt_rec numeral_2_eq_2)

lemma demo_create_abc:
  "create_faiss_index demo_openai (pointwise demo_embed) ''t2'' empty_fs ''kb''
     (map text_c (chunks meta_ab) @ [''c''])
   = (Inr (IndexFlatL2 3 [[1, 0, 0], [0, 1, 0], [0, 0, 1]],
           \<lparr>created_at = ''t2'', model = ''text-embedding-ada-002'', input_type = None,
            encoding_format = Some ''float'', total_chunks = 3, embedding_dim = Some 3,
            chunks = make_chunks 0 [''a'', ''b'', ''c''], updated_at = None\<rparr>),
      save_index empty_fs ''kb'' (IndexFlatL2 3 [[1, 0, 0], [0, 1, 0], [0, 0, 1]])
        \<lparr>created_at = ''t2'', model = ''text-embedding-ada-002'', input_type = None,
         encoding_format = Some ''float'', total_chunks = 3, embedding_dim = Some 3,
         chunks = make_chunks 0 [''a'', ''b'', ''c''], updated_at = None\<rparr>
        (Arr2 3 [[1, 0, 0], [0, 1, 0], [0, 0, 1]]))"
  by (simp add: demo_openai_def pointwise_def demo_embed_def meta_ab_def Let_def
        numeral_2_eq_2 numeral_3_eq_3)

theorem rebuild_equivalence_witness:
  "load_index fs_ab ''kb''
     = Inr (IndexFlatL2 3 [[1, 0, 0], [0, 1, 0]], meta_ab, Arr2 3 [[1, 0, 0], [0, 1, 0]])
   \<and> update_index demo_cohere (pointwise demo_embed) ''t1'' fs_ab ''kb'' [''c'']
       = (Inr (), fs_abc)
   \<and> faiss_files fs_abc ''kb''
       = Some (IndexFlatL2 3 ([[1, 0, 0], [0, 1, 0]] @ map demo_embed [''c'']))
   \<and> search demo_openai (pointwise demo_embed) fs_abc ''kb'' ''c'' 2
       = search demo_openai (pointwise demo_embed)
           (snd (create_faiss_index demo_openai (pointwise demo_embed) ''t2'' empty_fs ''kb''
                   (map text_c (chunks meta_ab) @ [''c''])))
           ''kb'' ''c'' 2"
proof -
  have em: "[[1, 0, 0], [0, 1, 0]] = map demo_embed (map text_c (chunks meta_ab))"
    by (simp add: meta_ab_def demo_embed_def)
  from rebuild_equivalence [OF load_fs_ab consistent_fs_ab em demo_update demo_create_abc]
    load_fs_ab demo_update
  show ?thesis by (simp add: demo_create_abc)
qed


subsection \<open>Search\<close>

lemma L2sqr_nonneg: "0 \<le> L2sqr x y"
  unfolding L2sqr_def by (rule sum_list_nonneg) auto

lemma with_int_label_le: "with_int_label a \<le> with_int_label b \<longleftrightarrow> a \<le> b"
  by (cases a; cases b) (simp add: with_int_label_def)

lemma insort_with_int_label:
  "insort (with_int_label x) (map with_int_label ys) = map with_int_label (insort x ys)"
  by (induction ys) (simp_all add: with_int_label_le)

lemma sort_with_int_label: "sort (map with_int_label xs) = map with_int_label (sort xs)"
  by (induction xs) (simp_all add: insort_with_int_label)

lemma scan_with_int_label:
  "scan xb q = map with_int_label (zip (map (L2sqr q) xb) [0 ..< length xb])"
  by (simp add: scan_def with_int_label_def zip_map2 case_prod_beta)

lemma knn_enough:
  assumes "k \<le> length xb"
  shows "knn xb k q = map with_int_label (take k (sort (zip (map (L2sqr q) xb) [0 ..< length xb])))"
  using assms by (simp add: knn_def Let_def scan_with_int_label sort_with_int_label take_map)

lemma build_results_spec:
  assumes "\<forall>p \<in> set ps. 0 \<le> fst p \<and> snd p < length cs"
  shows "build_results cs i (map with_int_label ps) = Inr (map (spec_result cs) (enumerate i ps))"
  using assms
proof (induction ps arbitrary: i)
  case Nil
  then show ?case by simp
next
  case (Cons p ps)
  obtain dst j where p: "p = (dst, j)" by (cases p)
  with Cons.prems have nn: "0 \<le> dst" and j: "j < length cs" by auto
  from nn have "1 + dst \<noteq> 0" by simp
  moreover from j have "py_get cs (int j) = Inr (cs ! j)" by (simp add: py_get_def)
  moreover from Cons have
    "build_results cs (i + 1) (map with_int_label ps) = Inr (map (spec_result cs) (enumerate (i + 1) ps))"
    by simp
  moreover have "with_int_label p = (dst, int j)" using p by (simp add: with_int_label_def)
  ultimately show ?case using p
    by (simp add: spec_result_def)
qed

text \<open>
  With at least \<open>k\<close> stored vectors, one chunk per vector and a query embedding of
  the index's dimension, the search returns what the specification asks for.
\<close>

lemma search_enough:
  assumes ld: "load_index f name = Inr (IndexFlatL2 d xb, m, a)"
    and ge: "get_embedding cl post (Str query) = Inr (Arr1 v)"
    and v: "length v = d" "v \<noteq> []"
    and k: "0 < k" "k \<le> length xb"
    and cs: "length (chunks m) = length xb"
  shows "search cl post f name query k = Inr (spec_search xb (chunks m) v k)"
proof -
  let ?ps = "take k (sort (zip (map (L2sqr v) xb) [0 ..< length xb]))"
  have "set ?ps \<subseteq> set (zip (map (L2sqr v) xb) [0 ..< length xb])"
    using set_take_subset [of k "sort (zip (map (L2sqr v) xb) [0 ..< length xb])"] by simp
  moreover have "0 \<le> dst \<and> j < length (chunks m)"
    if "(dst, j) \<in> set (zip (map (L2sqr v) xb) [0 ..< length xb])" for dst j
  proof -
    from that have "dst \<in> set (map (L2sqr v) xb)" and "j \<in> set [0 ..< length xb]"
      by (auto dest: set_zip_leftD set_zip_rightD)
    with cs show ?thesis by (auto simp: L2sqr_nonneg)
  qed
  ultimately have ok: "\<forall>p \<in> set ?ps. 0 \<le> fst p \<and> snd p < length (chunks m)"
    by (auto dest!: subsetD)
  have "search cl post f name query k
          = build_results (chunks m) 0 (zip (map fst (knn xb k v)) (map snd (knn xb k v)))"
    using ld ge v k by (simp add: search_def)
  also have "\<dots> = build_results (chunks m) 0 (knn xb k v)"
    by (simp only: zip_map_fst_snd)
  also have "\<dots> = build_results (chunks m) 0 (map with_int_label ?ps)"
    using k by (simp only: knn_enough)
  also have "\<dots> = Inr (map (spec_result (chunks m)) (enumerate 0 ?ps))"
    using ok by (rule build_results_spec)
  finally show ?thesis by (simp add: spec_search_def)
qed

lemma load_fs_none:
  "load_index fs_none ''kb'' =
     Inr (IndexFlatL2 3 [], meta_ab\<lparr>total_chunks := 0, chunks := []\<rparr>, Arr2 3 [])"
  by (simp add: fs_none_def load_save_same)

text \<open>
  Claim C2, where the code leaves it. The index \<open>kb\<close> of \<open>fs_ab\<close> stores two
  vectors. A search with the default \<open>k = 5\<close> returns five results: after the two
  stored chunks, three more that name the last chunk again, each with the distance
  \<open>FLT_MAX\<close>, which is not the squared distance 0 of that chunk to the query. FAISS
  labels a missing neighbour \<open>-1\<close>, and \<^verbatim>\<open>chunks_metadata["chunks"][-1]\<close> is the last
  chunk. The search of the specification returns the two chunks.
\<close>

theorem search_pads_with_last_chunk:
  "search demo_cohere (pointwise demo_embed) fs_ab ''kb'' ''b'' 5 =
     Inr [\<lparr>chunk_id = 1, text_r = ''b'', distance = 0, score = 1, rank = 1\<rparr>,
          \<lparr>chunk_id = 0, text_r = ''a'', distance = 2, score = 1 / 3, rank = 2\<rparr>,
          \<lparr>chunk_id = 1, text_r = ''b'', distance = FLT_MAX, score = 1 / (1 + FLT_MAX), rank = 3\<rparr>,
          \<lparr>chunk_id = 1, text_r = ''b'', distance = FLT_MAX, score = 1 / (1 + FLT_MAX), rank = 4\<rparr>,
          \<lparr>chunk_id = 1, text_r = ''b'', distance = FLT_MAX, score = 1 / (1 + FLT_MAX), rank = 5\<rparr>]
   \<and> spec_search [[1, 0, 0], [0, 1, 0]] (chunks meta_ab) (demo_embed ''b'') 5 =
       [\<lparr>chunk_id = 1, text_r = ''b'', distance = 0, score = 1, rank = 1\<rparr>,
        \<lparr>chunk_id = 0, text_r = ''a'', distance = 2, score = 1 / 3, rank = 2\<rparr>]
   \<and> L2sqr (demo_embed ''b'') [0, 1, 0] = 0"
  by (simp add: search_def load_fs_ab demo_cohere_def pointwise_def demo_embed_def knn_def
        scan_def L2sqr_def FLT_MAX_def py_get_def meta_ab_def Let_def eval_nat_numeral
        spec_search_def spec_result_def)

text \<open>
  Claim C3, where the code leaves it. On the two stored vectors of \<open>kb\<close> a search
  with \<open>k = 3\<close> returns three results, not two; and on an index without vectors the
  search raises IndexError, since \<open>-1\<close> indexes an empty chunk list.
\<close>

theorem search_short_store_counterexample:
  "search demo_openai (pointwise demo_embed) fs_ab ''kb'' ''a'' 3 =
     Inr [\<lparr>chunk_id = 0, text_r = ''a'', distance = 0, score = 1, rank = 1\<rparr>,
          \<lparr>chunk_id = 1, text_r = ''b'', distance = 2, score = 1 / 3, rank = 2\<rparr>,
          \<lparr>chunk_id = 1, text_r = ''b'', distance = FLT_MAX, score = 1 / (1 + FLT_MAX), rank = 3\<rparr>]
   \<and> length (spec_search [[1, 0, 0], [0, 1, 0]] (chunks meta_ab) (demo_embed ''a'') 3) = 2
   \<and> search demo_openai (pointwise demo_embed) fs_none ''kb'' ''a'' 3 = Inl IndexError
   \<and> spec_search [] [] (demo_embed ''a'') 3 = []"
  by (simp add: search_def load_fs_ab load_fs_none demo_openai_def pointwise_def demo_embed_def
        knn_def scan_def L2sqr_def FLT_MAX_def py_get_def meta_ab_def Let_def eval_nat_numeral
        spec_search_def spec_result_def)

end
